theory Spec2Isabelle
  imports Complex_Main
begin

section \<open>A shallow embedding of \<^verbatim>\<open>pychicken.py\<close>\<close>

text \<open>
  The program is one Python class, \<^verbatim>\<open>pyChicken\<close>, whose methods talk to a camera, a
  Twitter client, an HTTP client, a YAML parser, a clock and a random generator. The
  embedding keeps the three things a method can do apart:
  \<^item> it reads and writes attributes of \<^verbatim>\<open>self\<close>: the record \<open>pychicken\<close>, passed in and
    returned;
  \<^item> it calls a collaborator: every call is appended to \<open>calls\<close> of the record \<open>world\<close>,
    and what the collaborator answers (a value or an exception) is read from the record
    \<open>env\<close>;
  \<^item> it raises: the result is \<open>Inl\<close> of the exception, together with the world and the
    object as they were when it was raised.
  A handler of the form \<^verbatim>\<open>except Exception as e: logging.error(...); raise e\<close> passes the
  exception on unchanged, and the calls of \<^verbatim>\<open>logging\<close> are left out of the trace; such a
  \<^verbatim>\<open>try\<close> block is therefore modelled by its body.
\<close>

subsection \<open>Exceptions and Python values\<close>

datatype exn =
    AttributeError
  | TypeError
  | ValueError
  | IndexError
  | KeyError
  | UnboundLocalError
  | NameError
  | KeyboardInterrupt
  | PiCameraError
  | TweepError
  | RequestException
  | YAMLError
  | OSError

text \<open>
  A value read from the configuration. \<^verbatim>\<open>configparser\<close> hands out strings, which is what
  \<^verbatim>\<open>__init__\<close> stores in \<^verbatim>\<open>tweet_interval\<close> and \<^verbatim>\<open>livestream_duration\<close>; a caller
  that sets the attribute to a number is covered by \<open>PyNum\<close>.
\<close>

datatype pyval = PyStr string | PyNum real

text \<open>
  What \<^verbatim>\<open>yaml.load(..., Loader=yaml.BaseLoader)\<close> returns: \<^verbatim>\<open>None\<close> for an empty
  document, a string for a scalar, a list for a sequence, a dict (here the list of its
  items, keys distinct) for a mapping.
\<close>

datatype yaml =
    YNone
  | YStr string
  | YSeq "yaml list"
  | YMap "(string \<times> yaml) list"

text \<open>\<^verbatim>\<open>len(x)\<close>.\<close>

fun py_len :: "yaml \<Rightarrow> exn + int" where
  "py_len YNone = Inl TypeError"
| "py_len (YStr s) = Inr (int (length s))"
| "py_len (YSeq xs) = Inr (int (length xs))"
| "py_len (YMap kvs) = Inr (int (length kvs))"

text \<open>
  \<^verbatim>\<open>xs[i]\<close> on a Python sequence: a negative index counts from the end, an index out of
  range raises \<^verbatim>\<open>IndexError\<close>.
\<close>

definition seq_index :: "'a list \<Rightarrow> int \<Rightarrow> exn + 'a" where
  "seq_index xs i =
     (let n = int (length xs);
          j = (if i < 0 then i + n else i)
      in if 0 \<le> j \<and> j < n then Inr (xs ! nat j) else Inl IndexError)"

text \<open>
  \<^verbatim>\<open>x[i]\<close> for an integer \<open>i\<close>. The keys of a mapping loaded with \<^verbatim>\<open>BaseLoader\<close> are
  strings, so an integer is never one of them.
\<close>

fun getitem_int :: "yaml \<Rightarrow> int \<Rightarrow> exn + yaml" where
  "getitem_int YNone i = Inl TypeError"
| "getitem_int (YStr s) i =
     (case seq_index s i of Inl e \<Rightarrow> Inl e | Inr c \<Rightarrow> Inr (YStr [c]))"
| "getitem_int (YSeq xs) i = seq_index xs i"
| "getitem_int (YMap kvs) i = Inl KeyError"

text \<open>\<^verbatim>\<open>x[k]\<close> for a string \<open>k\<close>.\<close>

fun getitem_str :: "yaml \<Rightarrow> string \<Rightarrow> exn + yaml" where
  "getitem_str (YMap kvs) k = (case map_of kvs k of None \<Rightarrow> Inl KeyError | Some v \<Rightarrow> Inr v)"
| "getitem_str YNone k = Inl TypeError"
| "getitem_str (YStr s) k = Inl TypeError"
| "getitem_str (YSeq xs) k = Inl TypeError"

text \<open>
  \<^verbatim>\<open>randrange(n)\<close> raises \<^verbatim>\<open>ValueError\<close> on an empty range and otherwise returns some
  number of \<open>[0, n)\<close>; which one is decided by \<open>pick\<close>, the randomness of this call.
\<close>

definition randrange :: "nat \<Rightarrow> int \<Rightarrow> exn + int" where
  "randrange pick n = (if n \<le> 0 then Inl ValueError else Inr (int pick mod n))"

text \<open>\<^verbatim>\<open>'%s' % n\<close> for an integer: its decimal digits.\<close>

fun str_nat :: "nat \<Rightarrow> string" where
  "str_nat n =
     (if n < 10 then [''0123456789'' ! n]
      else str_nat (n div 10) @ [''0123456789'' ! (n mod 10)])"

declare str_nat.simps [simp del]

definition str_int :: "int \<Rightarrow> string" where
  "str_int i = (if i < 0 then ''-'' @ str_nat (nat (- i)) else str_nat (nat i))"

text \<open>\<^verbatim>\<open>x > y\<close> for a float \<open>x\<close>: a string on the right raises \<^verbatim>\<open>TypeError\<close>.\<close>

fun float_gt :: "real \<Rightarrow> pyval \<Rightarrow> exn + bool" where
  "float_gt x (PyNum y) = Inr (y < x)"
| "float_gt x (PyStr y) = Inl TypeError"

subsection \<open>The object, the world and the collaborators\<close>

text \<open>
  The attribute \<^verbatim>\<open>camera\<close> is bound by \<^verbatim>\<open>_initialize_camera\<close> only: \<open>None\<close> is an object
  on which it has not run yet. A bound camera is open until its \<^verbatim>\<open>close()\<close> returns.
\<close>

datatype picamera = Opened | Closed

record pychicken =
  running_livestream :: bool
  youtube_key :: string
  youtube_feed_url :: string
  livestream_duration :: pyval
  facts_url :: string
  facts :: yaml
  facts_count :: int
  camera_text :: "string option"
  tweet_interval :: pyval
  twitter_image :: string
  timestamp :: real
  camera :: "picamera option"

text \<open>
  The calls a method makes on its collaborators, with the arguments that vary. \<open>PiCamera\<close>
  is the constructor, \<open>Configure a\<close> the assignments to the camera's settings (\<open>a\<close> is the
  text assigned to \<^verbatim>\<open>annotate_text\<close>, if any), \<open>Get\<close> is \<^verbatim>\<open>requests.get\<close> with the read of
  \<^verbatim>\<open>r.content\<close>, \<open>UpdateStatus m None\<close> is \<^verbatim>\<open>update_status\<close> without \<^verbatim>\<open>media_ids\<close>,
  \<open>NewThread n\<close> is \<^verbatim>\<open>threading.Thread(name=n, ...)\<close> and \<open>StartThread n\<close> the call of
  \<^verbatim>\<open>start()\<close> on that thread.
\<close>

datatype call =
    PiCamera
  | Configure "string option"
  | Sleep nat
  | Capture string
  | Close
  | MediaUpload string
  | UpdateStatus string "int list option"
  | Get string
  | YamlLoad string
  | Popen string
  | StartRecording
  | WaitRecording pyval
  | StopRecording
  | StdinClose
  | VerifyCredentials
  | NewThread string
  | StartThread string

text \<open>
  The world outside the object: the clock (\<open>clock w n\<close> is what the \<open>n\<close>-th call of
  \<^verbatim>\<open>datetime.now()\<close> returns, in seconds; \<open>reads\<close> counts the calls made so far) and the
  trace of collaborator calls, oldest first. Seconds are exact numbers: the rounding of
  \<^verbatim>\<open>total_seconds()\<close> to a float is not modelled.
\<close>

record world =
  clock :: "nat \<Rightarrow> real"
  reads :: nat
  calls :: "call list"

text \<open>
  What \<^verbatim>\<open>requests.get\<close> returns when it does not raise: the status of the response and
  its body. A response with an error status (404, 500) is returned like any other.
\<close>

record response =
  status_code :: nat
  content :: string

text \<open>
  How the collaborators answer during one invocation of a method: \<open>None\<close> (or \<open>Inr\<close>) is a
  normal return, \<open>Some e\<close> (or \<open>Inl e\<close>) raises \<open>e\<close>. Every method calls each collaborator
  at most once, but for \<^verbatim>\<open>wait_recording\<close>, which is called in a loop: \<open>on_wait_recording
  env k\<close> answers the \<open>k\<close>-th call. \<open>on_repr\<close> is Python's \<^verbatim>\<open>repr\<close> on a value that is not
  a string.
\<close>

record env =
  randrange_pick :: nat
  on_repr :: "yaml \<Rightarrow> string"
  on_new_camera :: "exn option"
  on_configure :: "exn option"
  on_capture :: "exn option"
  on_close :: "exn option"
  on_media_upload :: "exn + int"
  on_update_status :: "exn + int"
  on_get :: "exn + response"
  on_yaml_load :: "string \<Rightarrow> exn + yaml"
  on_popen :: "exn option"
  on_start_recording :: "exn option"
  on_wait_recording :: "nat \<Rightarrow> exn option"
  on_stop_recording :: "exn option"
  on_stdin_close :: "exn option"
  on_verify_credentials :: "exn option"

type_synonym 'a result = "(exn + 'a) \<times> world \<times> pychicken"

text \<open>Sequencing: the second statement runs only if the first did not raise.\<close>

definition then_do :: "'a result \<Rightarrow> ('a \<Rightarrow> world \<Rightarrow> pychicken \<Rightarrow> 'b result) \<Rightarrow> 'b result" where
  "then_do r f = (case r of (Inl e, w, s) \<Rightarrow> (Inl e, w, s) | (Inr x, w, s) \<Rightarrow> f x w s)"

definition record_call :: "call \<Rightarrow> world \<Rightarrow> world" where
  "record_call c w = w\<lparr>calls := calls w @ [c]\<rparr>"

text \<open>A call that returns nothing of interest.\<close>

definition perform :: "call \<Rightarrow> exn option \<Rightarrow> world \<Rightarrow> pychicken \<Rightarrow> unit result" where
  "perform c answer w s =
     (case answer of
        Some e \<Rightarrow> (Inl e, record_call c w, s)
      | None \<Rightarrow> (Inr (), record_call c w, s))"

text \<open>A call that returns a value.\<close>

definition request :: "call \<Rightarrow> exn + 'a \<Rightarrow> world \<Rightarrow> pychicken \<Rightarrow> 'a result" where
  "request c answer w s = (answer, record_call c w, s)"

definition datetime_now :: "world \<Rightarrow> real \<times> world" where
  "datetime_now w = (clock w (reads w), w\<lparr>reads := Suc (reads w)\<rparr>)"

subsection \<open>The rate limiter\<close>

text \<open>
  \<^verbatim>\<open>
  def _set_timestamp(self):
      timestamp = datetime.now()
      return timestamp
  \<close>
\<close>

definition set_timestamp :: "world \<Rightarrow> real \<times> world" where
  "set_timestamp w = datetime_now w"

text \<open>
  \<^verbatim>\<open>
  def _check_timestamp(self):
      curr_time = datetime.now()
      time_since_tweet = curr_time - self.timestamp
      secs_since_tweet = time_since_tweet.total_seconds()
      if ( secs_since_tweet > self.tweet_interval ):
          self.timestamp = self._set_timestamp()
          return True
      else:
          return False
  \<close>
  The clock is read once for the comparison and, when the comparison succeeds, a second
  time by \<^verbatim>\<open>_set_timestamp\<close>: the time stored is the second reading. The seconds
  compared are the exact difference of the two times; \<^verbatim>\<open>total_seconds()\<close> is that
  difference rounded to the nearest float, which is the same number whenever the
  difference is a float itself (as for the whole seconds used below). With a string for
  the interval the comparison raises, whatever the difference.
\<close>

definition check_timestamp :: "world \<Rightarrow> pychicken \<Rightarrow> bool result" where
  "check_timestamp w s =
     (let (curr_time, w1) = datetime_now w;
          secs_since_tweet = curr_time - timestamp s
      in case float_gt secs_since_tweet (tweet_interval s) of
           Inl e \<Rightarrow> (Inl e, w1, s)
         | Inr True \<Rightarrow>
             (let (t, w2) = set_timestamp w1 in (Inr True, w2, s\<lparr>timestamp := t\<rparr>))
         | Inr False \<Rightarrow> (Inr False, w1, s))"

text \<open>
  A sequence of \<open>n\<close> admission attempts, one call of \<^verbatim>\<open>_check_timestamp\<close> after the
  other: each attempt is listed with the time at which it read the clock and with what it
  returned. \<open>granted\<close> keeps the times of the attempts that returned \<^verbatim>\<open>True\<close>.
\<close>

fun attempts :: "nat \<Rightarrow> world \<Rightarrow> pychicken \<Rightarrow> (real \<times> (exn + bool)) list" where
  "attempts 0 w s = []"
| "attempts (Suc n) w s =
     (case check_timestamp w s of
        (r, w', s') \<Rightarrow> (clock w (reads w), r) # attempts n w' s')"

definition granted :: "(real \<times> (exn + bool)) list \<Rightarrow> real list" where
  "granted entries = map fst (filter (\<lambda>a. snd a = Inr True) entries)"

subsection \<open>The camera\<close>

text \<open>
  \<^verbatim>\<open>
  def _initialize_camera(self):
      try:
          self.camera = PiCamera()
          self.camera.resolution = (1024, 768)
          self.camera.framerate = 25
          if self.camera_text:
              self.camera.annotate_text = self.camera_text
          sleep(2)
          return True
      except Exception as e: ...; raise e
  \<close>
  The assignments to the camera's settings are one call, \<open>Configure\<close>. \<open>annotation s\<close>
  is the text that \<^verbatim>\<open>if self.camera_text:\<close> lets through: \<^verbatim>\<open>False\<close> (here \<open>None\<close>) and
  the empty string are not assigned.
\<close>

definition annotation :: "pychicken \<Rightarrow> string option" where
  "annotation s =
     (case camera_text s of
        None \<Rightarrow> None
      | Some t \<Rightarrow> if t = [] then None else Some t)"

definition initialize_camera :: "env \<Rightarrow> world \<Rightarrow> pychicken \<Rightarrow> bool result" where
  "initialize_camera env w s =
     then_do (perform PiCamera (on_new_camera env) w s) (\<lambda>_ w1 s1.
     then_do (perform (Configure (annotation s1)) (on_configure env) w1
                (s1\<lparr>camera := Some Opened\<rparr>)) (\<lambda>_ w2 s2.
     then_do (perform (Sleep 2) None w2 s2) (\<lambda>_ w3 s3.
     (Inr True, w3, s3))))"

text \<open>
  \<^verbatim>\<open>
  def _close_camera(self):
      try:
          self.camera.close()
      except Exception as e: ...; raise e
  \<close>
\<close>

definition close_camera :: "env \<Rightarrow> world \<Rightarrow> pychicken \<Rightarrow> unit result" where
  "close_camera env w s =
     (case camera s of
        None \<Rightarrow> (Inl AttributeError, w, s)
      | Some c \<Rightarrow>
          then_do (perform Close (on_close env) w s) (\<lambda>_ w1 s1.
          (Inr (), w1, s1\<lparr>camera := Some Closed\<rparr>)))"

text \<open>
  \<^verbatim>\<open>
  def _image_capture(self):
      try:
          self._initialize_camera()
          self.camera.capture(self.twitter_image, use_video_port=True)
          self._close_camera()
          return True
      except Exception as e: ...; raise e
  \<close>
  The three statements are in sequence inside the \<^verbatim>\<open>try\<close>; there is no \<^verbatim>\<open>finally\<close>.
\<close>

definition image_capture :: "env \<Rightarrow> world \<Rightarrow> pychicken \<Rightarrow> bool result" where
  "image_capture env w s =
     then_do (initialize_camera env w s) (\<lambda>_ w1 s1.
     then_do (perform (Capture (twitter_image s1)) (on_capture env) w1 s1) (\<lambda>_ w2 s2.
     then_do (close_camera env w2 s2) (\<lambda>_ w3 s3.
     (Inr True, w3, s3))))"

subsection \<open>Facts\<close>

text \<open>\<^verbatim>\<open>'%s' % x\<close> for a loaded value: a string is inserted as it is.\<close>

fun format_s :: "env \<Rightarrow> yaml \<Rightarrow> string" where
  "format_s env (YStr s) = s"
| "format_s env v = on_repr env v"

text \<open>
  \<^verbatim>\<open>
  def _get_tweet_fact(self):
      fact_number = randrange(self.facts_count)
      fact = self.facts[fact_number]
      fact_type = fact['type']
      fact_content = fact['content']
      fact_author = fact['source']
      if fact_type == "fact":
          message = "Chicken fact %s: %s source: %s" % (fact_number, fact_content, fact_author)
      if fact_type == "quote":
          message = "Chicken Quote %s: %s --%s" % (fact_number, fact_content, fact_author)
      return message
  \<close>
  With a type that is neither, \<^verbatim>\<open>message\<close> is unbound at the \<^verbatim>\<open>return\<close>. The method is
  written in two steps: \<open>get_tweet_fact\<close> draws the number and looks the fact up (the
  first two statements), \<open>fact_message\<close> is the rest, from \<^verbatim>\<open>fact['type']\<close> on.
\<close>

definition fact_message :: "env \<Rightarrow> int \<Rightarrow> yaml \<Rightarrow> exn + string" where
  "fact_message env fact_number fact' =
     (case getitem_str fact' ''type'' of
        Inl e \<Rightarrow> Inl e
      | Inr fact_type \<Rightarrow>
     (case getitem_str fact' ''content'' of
        Inl e \<Rightarrow> Inl e
      | Inr fact_content \<Rightarrow>
     (case getitem_str fact' ''source'' of
        Inl e \<Rightarrow> Inl e
      | Inr fact_author \<Rightarrow>
          if fact_type = YStr ''fact'' then
            Inr (''Chicken fact '' @ str_int fact_number @ '': '' @ format_s env fact_content
                 @ '' source: '' @ format_s env fact_author)
          else if fact_type = YStr ''quote'' then
            Inr (''Chicken Quote '' @ str_int fact_number @ '': '' @ format_s env fact_content
                 @ '' --'' @ format_s env fact_author)
          else Inl UnboundLocalError)))"

definition get_tweet_fact :: "env \<Rightarrow> pychicken \<Rightarrow> exn + string" where
  "get_tweet_fact env s =
     (case randrange (randrange_pick env) (facts_count s) of
        Inl e \<Rightarrow> Inl e
      | Inr fact_number \<Rightarrow>
     (case getitem_int (facts s) fact_number of
        Inl e \<Rightarrow> Inl e
      | Inr fact' \<Rightarrow> fact_message env fact_number fact'))"

text \<open>
  \<^verbatim>\<open>
  def _load_facts_file(self):
      r = requests.get(self.facts_url, stream=True)
      facts = yaml.load(r.content, Loader=yaml.BaseLoader)
      facts_count = len(facts)
      return facts, facts_count
  \<close>
  Neither the status of the response nor the shape of the parsed document is looked at.
\<close>

definition load_facts_file :: "env \<Rightarrow> world \<Rightarrow> pychicken \<Rightarrow> (yaml \<times> int) result" where
  "load_facts_file env w s =
     then_do (request (Get (facts_url s)) (on_get env) w s) (\<lambda>r w1 s1.
     then_do (request (YamlLoad (content r)) (on_yaml_load env (content r)) w1 s1)
       (\<lambda>facts' w2 s2.
     (case py_len facts' of
        Inl e \<Rightarrow> (Inl e, w2, s2)
      | Inr facts_count' \<Rightarrow> (Inr (facts', facts_count'), w2, s2))))"

text \<open>
  The statement \<^verbatim>\<open>self.facts, self.facts_count = self._load_facts_file()\<close>, which stands
  in \<^verbatim>\<open>__init__\<close> (the initial load) and in \<^verbatim>\<open>_run_retrieve_facts\<close> (the refresh): both
  attributes are assigned after the call has returned.
\<close>

definition store_facts :: "env \<Rightarrow> world \<Rightarrow> pychicken \<Rightarrow> unit result" where
  "store_facts env w s =
     then_do (load_facts_file env w s) (\<lambda>loaded w1 s1.
     (Inr (), w1, s1\<lparr>facts := fst loaded, facts_count := snd loaded\<rparr>))"

text \<open>
  \<^verbatim>\<open>
  def _run_retrieve_facts(self):
      sleep(3600)
      self.facts, self.facts_count = self._load_facts_file()
  \<close>
\<close>

definition run_retrieve_facts :: "env \<Rightarrow> world \<Rightarrow> pychicken \<Rightarrow> unit result" where
  "run_retrieve_facts env w s =
     then_do (perform (Sleep 3600) None w s) (\<lambda>_ w1 s1. store_facts env w1 s1)"

text \<open>The number of times a trace asks the content source for the facts.\<close>

fun is_get :: "call \<Rightarrow> bool" where
  "is_get (Get url) = True"
| "is_get c = False"

definition refresh_attempts :: "call list \<Rightarrow> nat" where
  "refresh_attempts cs = length (filter is_get cs)"

subsection \<open>Tweets\<close>

text \<open>
  \<^verbatim>\<open>
  def _send_tweet(self):
      try:
          if self.running_livestream:
              message = "Hey! We're running a livestream right now! Come check us out at %s" % self.youtube_feed_url
              update = self.twitter.update_status(status=message)
          else:
              message = self._get_tweet_fact()
              if self._image_capture():
                  media_id = list()
                  media = self.twitter.media_upload(self.twitter_image)
                  media_id.append(media.media_id)
                  update = self.twitter.update_status(status=message, media_ids=media_id)
              else:
                  update = self.twitter.update_status(status=message)
          return update.id
      except Exception as e: ...; raise e
  \<close>
  The result is \<^verbatim>\<open>update.id\<close>, the number that \<^verbatim>\<open>update_status\<close> answers with. The second
  \<^verbatim>\<open>else\<close> is kept although \<^verbatim>\<open>_image_capture\<close> returns \<^verbatim>\<open>True\<close> or raises. No
  statement of the method calls \<^verbatim>\<open>_check_timestamp\<close>.
\<close>

definition announcement :: "pychicken \<Rightarrow> string" where
  "announcement s =
     ''Hey! We're running a livestream right now! Come check us out at '' @ youtube_feed_url s"

definition send_tweet :: "env \<Rightarrow> world \<Rightarrow> pychicken \<Rightarrow> int result" where
  "send_tweet env w s =
     (if running_livestream s then
        request (UpdateStatus (announcement s) None) (on_update_status env) w s
      else
        (case get_tweet_fact env s of
           Inl e \<Rightarrow> (Inl e, w, s)
         | Inr message \<Rightarrow>
             then_do (image_capture env w s) (\<lambda>captured w1 s1.
               if captured then
                 then_do (request (MediaUpload (twitter_image s1)) (on_media_upload env) w1 s1)
                   (\<lambda>media_id w2 s2.
                 request (UpdateStatus message (Some [media_id])) (on_update_status env) w2 s2)
               else
                 request (UpdateStatus message None) (on_update_status env) w1 s1)))"

text \<open>
  \<^verbatim>\<open>
  def _motion_sensor(self):
      self._send_tweet()
  \<close>
\<close>

definition motion_sensor :: "env \<Rightarrow> world \<Rightarrow> pychicken \<Rightarrow> unit result" where
  "motion_sensor env w s = then_do (send_tweet env w s) (\<lambda>_ w1 s1. (Inr (), w1, s1))"

subsection \<open>The livestream\<close>

text \<open>
  \<^verbatim>\<open>
  def _send_livestream(self):
      try:
          self.running_livestream = True
          youtube_url = 'rtmp://a.rtmp.youtube.com/live2/'
          stream_cmd = 'ffmpeg ... -f flv %s%s' % (youtube_url, self.youtube_key)
          stream_pipe = subprocess.Popen(stream_cmd, shell=True, stdin=subprocess.PIPE)
          self.camera.start_recording(stream_pipe.stdin, format='h264', bitrate = 2000000)
          while True:
              self.camera.wait_recording(self.livestream_duration)
      except KeyboardInterrupt:
          self.camera.stop_recording()
      finally:
          self._close_camera()
          stream_pipe.stdin.close()
          self.running_livestream = False
  \<close>
  The loop has no exit of its own: it ends when a call of \<^verbatim>\<open>wait_recording\<close> raises, and
  runs forever when none does, which is the value \<open>None\<close>. \<open>wait_loop env d k w\<close> is the
  loop from its \<open>k\<close>-th round on; it returns the exception that ended it.
\<close>

partial_function (option) wait_loop :: "env \<Rightarrow> pyval \<Rightarrow> nat \<Rightarrow> world \<Rightarrow> (exn \<times> world) option" where
  "wait_loop env d k w =
     (case on_wait_recording env k of
        Some e \<Rightarrow> Some (e, record_call (WaitRecording d) w)
      | None \<Rightarrow> wait_loop env d (Suc k) (record_call (WaitRecording d) w))"

declare wait_loop.simps [code]

definition stream_cmd :: "pychicken \<Rightarrow> string" where
  "stream_cmd s =
     ''ffmpeg -f h264 -r 25 -i - -itsoffset 5.5 -fflags nobuffer -f alsa -ac 1 -i hw:1,0 ''
     @ ''-vcodec copy -acodec aac -ac 1 -ar 8000 -ab 32k -map 0:0 -map 1:0 ''
     @ ''-strict experimental -f flv ''
     @ ''rtmp://a.rtmp.youtube.com/live2/'' @ youtube_key s"

text \<open>
  The body of the \<^verbatim>\<open>try\<close>. It can only be left by an exception; the result is that
  exception, whether \<^verbatim>\<open>stream_pipe\<close> was bound when it was raised, and the world and the
  object at that moment.
\<close>

definition livestream_try :: "env \<Rightarrow> world \<Rightarrow> pychicken \<Rightarrow> (exn \<times> bool \<times> world \<times> pychicken) option" where
  "livestream_try env w s =
     (let s1 = s\<lparr>running_livestream := True\<rparr>;
          w1 = record_call (Popen (stream_cmd s1)) w
      in case on_popen env of
           Some e \<Rightarrow> Some (e, False, w1, s1)
         | None \<Rightarrow>
             (case camera s1 of
                None \<Rightarrow> Some (AttributeError, True, w1, s1)
              | Some c \<Rightarrow>
                  (case on_start_recording env of
                     Some e \<Rightarrow> Some (e, True, record_call StartRecording w1, s1)
                   | None \<Rightarrow>
                       (case wait_loop env (livestream_duration s1) 0
                               (record_call StartRecording w1) of
                          None \<Rightarrow> None
                        | Some (e, w2) \<Rightarrow> Some (e, True, w2, s1)))))"

text \<open>
  The handler: a \<^verbatim>\<open>KeyboardInterrupt\<close> is caught and the recording stopped, any other
  exception stays pending. The result is the exception still to be raised, if any.
\<close>

definition livestream_except :: "env \<Rightarrow> exn \<Rightarrow> world \<Rightarrow> pychicken \<Rightarrow> exn option \<times> world" where
  "livestream_except env e w s =
     (if e = KeyboardInterrupt then
        (case camera s of
           None \<Rightarrow> (Some AttributeError, w)
         | Some c \<Rightarrow> (on_stop_recording env, record_call StopRecording w))
      else (Some e, w))"

text \<open>
  The \<^verbatim>\<open>finally\<close> block: three statements in sequence. An exception raised by one of
  them replaces the pending one and skips the statements after it.
\<close>

definition livestream_finally :: "env \<Rightarrow> bool \<Rightarrow> exn option \<Rightarrow> world \<Rightarrow> pychicken \<Rightarrow> unit result" where
  "livestream_finally env pipe_bound pending w s =
     then_do (close_camera env w s) (\<lambda>_ w1 s1.
     then_do (if pipe_bound then perform StdinClose (on_stdin_close env) w1 s1
              else (Inl UnboundLocalError, w1, s1)) (\<lambda>_ w2 s2.
     (case pending of
        Some e \<Rightarrow> (Inl e, w2, s2\<lparr>running_livestream := False\<rparr>)
      | None \<Rightarrow> (Inr (), w2, s2\<lparr>running_livestream := False\<rparr>))))"

definition send_livestream :: "env \<Rightarrow> world \<Rightarrow> pychicken \<Rightarrow> unit result option" where
  "send_livestream env w s =
     (case livestream_try env w s of
        None \<Rightarrow> None
      | Some (e, pipe_bound, w1, s1) \<Rightarrow>
          (case livestream_except env e w1 s1 of
             (pending, w2) \<Rightarrow> Some (livestream_finally env pipe_bound pending w2 s1)))"

text \<open>
  \<^verbatim>\<open>
  def _run_livestream(self):
      sleep(30)
      self._send_livestream()
  \<close>
\<close>

definition run_livestream :: "env \<Rightarrow> world \<Rightarrow> pychicken \<Rightarrow> unit result option" where
  "run_livestream env w s = send_livestream env (record_call (Sleep 30) w) s"

subsection \<open>The constructor\<close>

text \<open>
  The values \<^verbatim>\<open>__init__\<close> reads from the configuration file. \<^verbatim>\<open>configparser\<close> hands
  every one of them out as a string. The constructor is modelled for a configuration
  file that has every entry \<^verbatim>\<open>__init__\<close> reads and in which the \<^verbatim>\<open>enabled\<close> entry of
  every section is a non-empty string, so that each \<^verbatim>\<open>if\<close> of \<^verbatim>\<open>__init__\<close> is taken (any
  non-empty string is true, \<^verbatim>\<open>'no'\<close> and \<^verbatim>\<open>'false'\<close> too).
\<close>

record config =
  cfg_youtube_key :: string
  cfg_youtube_url :: string
  cfg_youtube_feed_url :: string
  cfg_duration :: string
  cfg_facts_url :: string
  cfg_gpio_pin :: string
  cfg_camera_text :: string
  cfg_tweet_interval :: string
  cfg_consumer_key :: string
  cfg_consumer_secret :: string
  cfg_access_token :: string
  cfg_access_token_secret :: string

text \<open>
  An object before \<^verbatim>\<open>__init__\<close> has bound anything. The record has no unbound fields:
  the values below stand for attributes not assigned yet, and \<^verbatim>\<open>__init__\<close> assigns each
  of them, but for \<^verbatim>\<open>camera\<close>, before it is read.
\<close>

definition blank :: pychicken where
  "blank = \<lparr>running_livestream = False, youtube_key = [], youtube_feed_url = [],
     livestream_duration = PyStr [], facts_url = [], facts = YNone, facts_count = 0,
     camera_text = None, tweet_interval = PyStr [], twitter_image = [], timestamp = 0,
     camera = None\<rparr>"

text \<open>
  \<^verbatim>\<open>
  def _create_twitter_api(self, key, secret, token, token_secret, use_camera):
      auth = tweepy.OAuthHandler(key, secret)
      auth.set_access_token(token, token_secret)
      api = tweepy.API(auth, wait_on_rate_limit=True, wait_on_rate_limit_notify=True)
      try:
          api.verify_credentials()
      except Exception as e: ...; raise e
      if use_camera:
          self.image_filename = 'tweetpic.jpg'
          self.image_path = '/home/pi'
          self.twitter_image = os.path.join(self.image_path, self.image_filename)
      return api
  \<close>
\<close>

definition create_twitter_api :: "env \<Rightarrow> world \<Rightarrow> pychicken \<Rightarrow> unit result" where
  "create_twitter_api env w s =
     then_do (perform VerifyCredentials (on_verify_credentials env) w s) (\<lambda>_ w1 s1.
     (Inr (), w1, s1\<lparr>twitter_image := ''/home/pi/tweetpic.jpg''\<rparr>))"

text \<open>
  \<^verbatim>\<open>
  def __init__(self, options):
      config = configparser.ConfigParser()
      config.read(options.config)
      ...
      if send_livestream:
          self.running_livestream = False
          self.youtube_key = config['livestream']['youtube_key']
          self.youtube_url = config['livestream']['youtube_url']
          self.youtube_feed_url = config['livestream']['youtube_feed_url']
          self.livestream_duration = config['livestream']['duration']
      if use_facts:
          self.facts_url = config['facts']['facts_url']
          self.facts, self.facts_count = self._load_facts_file()
      if use_motion_sensor:
          self.motion_sensor_pin = config['motion_sensor']['gpio_pin']
      if use_camera:
          if config['camera']['text']:
              self.camera_text = config['camera']['text']
          else:
              self.camera_text = False
      if send_tweets:
          self.tweet_interval = config['twitter']['tweet_interval']
          ...
          self.twitter = self._create_twitter_api(...)
      self.timestamp = self._set_timestamp()
  \<close>
  The attributes \<^verbatim>\<open>youtube_url\<close>, \<^verbatim>\<open>motion_sensor_pin\<close> and \<^verbatim>\<open>twitter\<close>, which no
  modelled method reads, are not fields of the record. The interval and the duration are
  stored as the strings they are read as. When the constructor raises, the caller gets no
  object.
\<close>

definition init :: "config \<Rightarrow> env \<Rightarrow> world \<Rightarrow> unit result" where
  "init cfg env w =
     then_do (store_facts env w
                (blank\<lparr>running_livestream := False,
                   youtube_key := cfg_youtube_key cfg,
                   youtube_feed_url := cfg_youtube_feed_url cfg,
                   livestream_duration := PyStr (cfg_duration cfg),
                   facts_url := cfg_facts_url cfg\<rparr>)) (\<lambda>_ w1 s1.
     then_do (create_twitter_api env w1
                (s1\<lparr>camera_text :=
                      (if cfg_camera_text cfg = [] then None else Some (cfg_camera_text cfg)),
                    tweet_interval := PyStr (cfg_tweet_interval cfg)\<rparr>)) (\<lambda>_ w2 s2.
     (let (t, w3) = set_timestamp w2 in (Inr (), w3, s2\<lparr>timestamp := t\<rparr>))))"

subsection \<open>Starting the threads\<close>

text \<open>
  The names bound at the top level of the module: the imports of lines 1 to 14 and the
  class. \<^verbatim>\<open>livestream\<close> is not among them, and it is no builtin.
\<close>

definition module_globals :: "string list" where
  "module_globals =
     [''os'', ''pause'', ''datetime'', ''sleep'', ''randrange'', ''configparser'',
      ''requests'', ''yaml'', ''logging'', ''threading'', ''subprocess'', ''tweepy'',
      ''MotionSensor'', ''PiCamera'', ''pyChicken'']"

text \<open>
  \<^verbatim>\<open>
  def run(self):
      facts_thread = threading.Thread(name='facts', target=self._run_retrieve_facts)
      motion_thread = threading.Thread(name='motion_sensor', target=self._run_motion_sensor)
      livestream_thread = threading.Thread(name=livestream, target=self._run_livestream)
      facts_thread.start()
      motion_thread.start()
  \<close>
  The third statement evaluates the name \<^verbatim>\<open>livestream\<close>, neither a local nor a global:
  that raises \<^verbatim>\<open>NameError\<close>, and the two calls of \<^verbatim>\<open>start()\<close> are not reached. Were the
  name bound, the two threads would be started; what they then do concurrently is not
  part of this function. \<^verbatim>\<open>_run_retrieve_facts\<close> is the target of one thread only, and no
  statement of the class calls it.
\<close>

definition run :: "env \<Rightarrow> world \<Rightarrow> pychicken \<Rightarrow> unit result" where
  "run env w s =
     (let w2 = record_call (NewThread ''motion_sensor'') (record_call (NewThread ''facts'') w)
      in if ''livestream'' \<in> set module_globals then
           (Inr (),
            record_call (StartThread ''motion_sensor'')
              (record_call (StartThread ''facts'')
                (record_call (NewThread ''livestream'') w2)),
            s)
         else (Inl NameError, w2, s))"

subsection \<open>Concrete objects, worlds and collaborators\<close>

text \<open>
  A clock that shows \<open>t0\<close> when first read and \<open>dt\<close> more at each further reading. The
  clock of \<open>world_at t0\<close> advances by one second from one reading to the next, that of
  \<open>slow_world\<close> starts at 0 and advances by 40 seconds.
\<close>

definition ticking :: "real \<Rightarrow> real \<Rightarrow> nat \<Rightarrow> real" where
  "ticking t0 dt n = t0 + dt * real n"

definition world_at :: "real \<Rightarrow> world" where
  "world_at t0 = \<lparr>clock = ticking t0 1, reads = 0, calls = []\<rparr>"

definition slow_world :: world where
  "slow_world = \<lparr>clock = ticking 0 40, reads = 0, calls = []\<rparr>"

text \<open>
  An object that last published at time 0, with a minimum interval of 60 seconds and a
  livestream duration of 600 seconds, two facts loaded, no livestream running and no
  camera bound yet; the same object before its facts are loaded; and the same object
  with an open camera bound.
\<close>

definition two_facts :: yaml where
  "two_facts = YSeq
     [YMap [(''type'', YStr ''fact''), (''content'', YStr ''Hens lay eggs''),
            (''source'', YStr ''farm'')],
      YMap [(''type'', YStr ''quote''), (''content'', YStr ''Cluck''),
            (''source'', YStr ''a hen'')]]"

definition chicken :: pychicken where
  "chicken = \<lparr>running_livestream = False, youtube_key = ''key'',
     youtube_feed_url = ''https://youtu.be/yard'', livestream_duration = PyNum 600,
     facts_url = ''https://example.org/facts.yml'', facts = two_facts, facts_count = 2,
     camera_text = None, tweet_interval = PyNum 60,
     twitter_image = ''/home/pi/tweetpic.jpg'', timestamp = 0, camera = None\<rparr>"

definition unloaded :: pychicken where
  "unloaded = chicken\<lparr>facts := YNone, facts_count := 0\<rparr>"

text \<open>
  A configuration with the same values, and the object as \<^verbatim>\<open>__init__\<close> builds it from
  that configuration: the interval and the duration are the strings \<^verbatim>\<open>'60'\<close> and
  \<^verbatim>\<open>'600'\<close>.
\<close>

definition hen_house :: config where
  "hen_house = \<lparr>cfg_youtube_key = ''key'', cfg_youtube_url = ''rtmp://a.rtmp.youtube.com/live2/'',
     cfg_youtube_feed_url = ''https://youtu.be/yard'', cfg_duration = ''600'',
     cfg_facts_url = ''https://example.org/facts.yml'', cfg_gpio_pin = ''4'',
     cfg_camera_text = [], cfg_tweet_interval = ''60'', cfg_consumer_key = ''ck'',
     cfg_consumer_secret = ''cs'', cfg_access_token = ''at'',
     cfg_access_token_secret = ''ats''\<rparr>"

definition configured :: pychicken where
  "configured = chicken\<lparr>livestream_duration := PyStr ''600'', tweet_interval := PyStr ''60''\<rparr>"

definition streaming :: pychicken where
  "streaming = chicken\<lparr>camera := Some Opened\<rparr>"

text \<open>
  Collaborators that all answer normally: no call raises, no interrupt arrives, the
  content source serves a document that parses to \<open>two_facts\<close>. The answers that differ
  are written as updates of \<open>calm\<close>: \<open>raise_at n e\<close> lets the \<open>n\<close>-th call of
  \<^verbatim>\<open>wait_recording\<close> raise \<open>e\<close>, \<open>parse_fails\<close> is a parser that rejects the document.
  \<open>not_found\<close> is the response of a server that does not have the file, and
  \<open>parse_not_found\<close> what \<^verbatim>\<open>BaseLoader\<close> makes of its body: a mapping with one key.
  \<open>parse_keyed\<close> is the parse of a document that holds its facts under a top-level key.
\<close>

definition no_raise :: "nat \<Rightarrow> exn option" where
  "no_raise k = None"

definition raise_at :: "nat \<Rightarrow> exn \<Rightarrow> nat \<Rightarrow> exn option" where
  "raise_at n e k = (if k = n then Some e else None)"

definition parse_two_facts :: "string \<Rightarrow> exn + yaml" where
  "parse_two_facts doc = Inr two_facts"

definition parse_fails :: "string \<Rightarrow> exn + yaml" where
  "parse_fails doc = Inl YAMLError"

definition not_found :: response where
  "not_found = \<lparr>status_code = 404, content = ''404: Not Found''\<rparr>"

definition parse_not_found :: "string \<Rightarrow> exn + yaml" where
  "parse_not_found doc = Inr (YMap [(''404'', YStr ''Not Found'')])"

definition parse_keyed :: "string \<Rightarrow> exn + yaml" where
  "parse_keyed doc = Inr (YMap [(''facts'', two_facts)])"

definition no_repr :: "yaml \<Rightarrow> string" where
  "no_repr v = []"

definition calm :: env where
  "calm = \<lparr>randrange_pick = 0, on_repr = no_repr, on_new_camera = None,
     on_configure = None, on_capture = None, on_close = None, on_media_upload = Inr 7,
     on_update_status = Inr 1001,
     on_get = Inr \<lparr>status_code = 200, content = ''facts''\<rparr>,
     on_yaml_load = parse_two_facts, on_popen = None, on_start_recording = None,
     on_wait_recording = no_raise, on_stop_recording = None, on_stdin_close = None,
     on_verify_credentials = None\<rparr>"

section \<open>Properties\<close>

subsection \<open>Sequencing\<close>

lemma then_do_Inl [simp]: "then_do (Inl e, w, s) f = (Inl e, w, s)"
  by (simp add: then_do_def)

lemma then_do_Inr [simp]: "then_do (Inr x, w, s) f = f x w s"
  by (simp add: then_do_def)

lemma perform_None [simp]: "perform c None w s = (Inr (), record_call c w, s)"
  by (simp add: perform_def)

lemma perform_Some [simp]: "perform c (Some e) w s = (Inl e, record_call c w, s)"
  by (simp add: perform_def)

lemma request_Inl [simp]: "request c (Inl e) w s = (Inl e, record_call c w, s)"
  by (simp add: request_def)

lemma request_Inr [simp]: "request c (Inr x) w s = (Inr x, record_call c w, s)"
  by (simp add: request_def)

subsection \<open>The admission check\<close>

lemma check_timestamp_granted:
  assumes "tweet_interval s = PyNum d" and "d < clock w (reads w) - timestamp s"
  shows "check_timestamp w s =
    (Inr True, w\<lparr>reads := Suc (Suc (reads w))\<rparr>, s\<lparr>timestamp := clock w (Suc (reads w))\<rparr>)"
  using assms by (simp add: check_timestamp_def set_timestamp_def datetime_now_def)

lemma check_timestamp_denied:
  assumes "tweet_interval s = PyNum d" and "\<not> d < clock w (reads w) - timestamp s"
  shows "check_timestamp w s = (Inr False, w\<lparr>reads := Suc (reads w)\<rparr>, s)"
  using assms by (simp add: check_timestamp_def set_timestamp_def datetime_now_def)

text \<open>
  With the string that \<^verbatim>\<open>__init__\<close> reads from the configuration, the comparison raises
  and nothing is recorded.
\<close>

lemma check_timestamp_str:
  assumes "tweet_interval s = PyStr x"
  shows "check_timestamp w s = (Inl TypeError, w\<lparr>reads := Suc (reads w)\<rparr>, s)"
  using assms by (simp add: check_timestamp_def set_timestamp_def datetime_now_def)

subsection \<open>Sequences of admission attempts\<close>

lemma attempts_step_granted:
  assumes "tweet_interval s = PyNum d" and "d < clock w (reads w) - timestamp s"
  shows "granted (attempts (Suc n) w s) =
     clock w (reads w) #
     granted (attempts n (w\<lparr>reads := Suc (Suc (reads w))\<rparr>)
                (s\<lparr>timestamp := clock w (Suc (reads w))\<rparr>))"
  using check_timestamp_granted [OF assms] by (simp add: granted_def)

lemma attempts_step_denied:
  assumes "tweet_interval s = PyNum d" and "\<not> d < clock w (reads w) - timestamp s"
  shows "granted (attempts (Suc n) w s) = granted (attempts n (w\<lparr>reads := Suc (reads w)\<rparr>) s)"
  using check_timestamp_denied [OF assms] by (simp add: granted_def)

text \<open>
  On a clock that never runs backwards, every admission of a run comes more than the
  interval after the time stored at the start of the run, and not before the run's first
  reading.
\<close>

lemma granted_after_timestamp:
  assumes "mono (clock w)" and "tweet_interval s = PyNum d"
    and "t \<in> set (granted (attempts n w s))"
  shows "d < t - timestamp s \<and> clock w (reads w) \<le> t"
  using assms
proof (induction n arbitrary: w s)
  case 0
  then show ?case by (simp add: granted_def)
next
  case (Suc n)
  let ?t0 = "clock w (reads w)"
  let ?t1 = "clock w (Suc (reads w))"
  have t01: "?t0 \<le> ?t1"
    using Suc.prems(1) by (simp add: monoD)
  show ?case
  proof (cases "d < ?t0 - timestamp s")
    case True
    let ?w = "w\<lparr>reads := Suc (Suc (reads w))\<rparr>"
    let ?s = "s\<lparr>timestamp := ?t1\<rparr>"
    from Suc.prems(3) attempts_step_granted [OF Suc.prems(2) True, of n]
    consider "t = ?t0" | "t \<in> set (granted (attempts n ?w ?s))"
      by auto
    then show ?thesis
    proof cases
      case 1
      with True show ?thesis by simp
    next
      case 2
      have "mono (clock ?w)" and "tweet_interval ?s = PyNum d"
        using Suc.prems by simp_all
      from Suc.IH [OF this 2] have "clock w (Suc (Suc (reads w))) \<le> t"
        by simp
      moreover have "?t0 \<le> clock w (Suc (Suc (reads w)))"
        using Suc.prems(1) by (simp add: monoD)
      ultimately have "?t0 \<le> t" by simp
      with True show ?thesis by simp
    qed
  next
    case False
    let ?w = "w\<lparr>reads := Suc (reads w)\<rparr>"
    from Suc.prems(3) attempts_step_denied [OF Suc.prems(2) False, of n]
    have later: "t \<in> set (granted (attempts n ?w s))"
      by simp
    have "mono (clock ?w)"
      using Suc.prems by simp
    from Suc.IH [OF this Suc.prems(2) later] have "d < t - timestamp s" and "?t1 \<le> t"
      by simp_all
    with t01 show ?thesis by simp
  qed
qed

lemma granted_spaced:
  assumes "mono (clock w)" and "tweet_interval s = PyNum d"
  shows "sorted_wrt (\<lambda>a b. d < b - a) (granted (attempts n w s))"
  using assms
proof (induction n arbitrary: w s)
  case 0
  then show ?case by (simp add: granted_def)
next
  case (Suc n)
  let ?t0 = "clock w (reads w)"
  let ?t1 = "clock w (Suc (reads w))"
  show ?case
  proof (cases "d < ?t0 - timestamp s")
    case True
    let ?w = "w\<lparr>reads := Suc (Suc (reads w))\<rparr>"
    let ?s = "s\<lparr>timestamp := ?t1\<rparr>"
    have w: "mono (clock ?w)" and s: "tweet_interval ?s = PyNum d"
      using Suc.prems by simp_all
    have "?t0 \<le> ?t1"
      using Suc.prems(1) by (simp add: monoD)
    moreover have "d < u - ?t1" if "u \<in> set (granted (attempts n ?w ?s))" for u
      using granted_after_timestamp [OF w s that] by simp
    ultimately have "\<forall>u \<in> set (granted (attempts n ?w ?s)). d < u - ?t0"
      by fastforce
    moreover have "sorted_wrt (\<lambda>a b. d < b - a) (granted (attempts n ?w ?s))"
      by (rule Suc.IH [OF w s])
    ultimately show ?thesis
      unfolding attempts_step_granted [OF Suc.prems(2) True] by simp
  next
    case False
    have "mono (clock (w\<lparr>reads := Suc (reads w)\<rparr>))"
      using Suc.prems by simp
    from Suc.IH [OF this Suc.prems(2)] show ?thesis
      unfolding attempts_step_denied [OF Suc.prems(2) False] .
  qed
qed

text \<open>Times spaced by more than \<open>d\<close>: a window shorter than \<open>d\<close> holds at most one.\<close>

lemma spaced_window:
  fixes d :: real
  assumes "sorted_wrt (\<lambda>a b. d < b - a) ts" and "len < d"
  shows "length (filter (\<lambda>t. a \<le> t \<and> t < a + len) ts) \<le> 1"
  using assms
proof (induction ts)
  case Nil
  then show ?case by simp
next
  case (Cons t ts)
  show ?case
  proof (cases "a \<le> t \<and> t < a + len")
    case True
    have "\<not> (a \<le> u \<and> u < a + len)" if "u \<in> set ts" for u
    proof -
      from Cons.prems(1) that have "d < u - t" by simp
      with True Cons.prems(2) show ?thesis by simp
    qed
    then have "filter (\<lambda>t. a \<le> t \<and> t < a + len) ts = []"
      by (simp add: filter_empty_conv)
    with True show ?thesis by simp
  next
    case False
    then have "filter (\<lambda>t. a \<le> t \<and> t < a + len) (t # ts)
        = filter (\<lambda>t. a \<le> t \<and> t < a + len) ts"
      by simp
    moreover from Cons.prems(1) have "sorted_wrt (\<lambda>a b. d < b - a) ts"
      by simp
    ultimately show ?thesis
      using Cons.IH Cons.prems(2) by simp
  qed
qed

text \<open>
  Claim C3. Take any number of admission attempts, one after the other, from any state
  of the limiter with a numeric interval \<open>d\<close>, on a clock whose readings never decrease
  (strictly increasing attempt times are a case of this). Then any two admissions that
  were granted are at least \<open>d\<close> apart, and any window \<open>[a, a + len)\<close> shorter than \<open>d\<close>
  holds at most one granted admission.
\<close>

theorem admissions_spaced:
  assumes "mono (clock w)" and "tweet_interval s = PyNum d"
  shows "sorted_wrt (\<lambda>a b. d \<le> b - a) (granted (attempts n w s))
    \<and> (\<forall>a len. len < d \<longrightarrow>
          length (filter (\<lambda>t. a \<le> t \<and> t < a + len) (granted (attempts n w s))) \<le> 1)"
proof
  have spaced: "sorted_wrt (\<lambda>a b. d < b - a) (granted (attempts n w s))"
    using assms by (rule granted_spaced)
  then show "sorted_wrt (\<lambda>a b. d \<le> b - a) (granted (attempts n w s))"
    by (rule sorted_wrt_mono_rel [rotated]) simp
  show "\<forall>a len. len < d \<longrightarrow>
      length (filter (\<lambda>t. a \<le> t \<and> t < a + len) (granted (attempts n w s))) \<le> 1"
  proof (intro allI impI)
    fix a len :: real
    assume "len < d"
    with spaced
    show "length (filter (\<lambda>t. a \<le> t \<and> t < a + len) (granted (attempts n w s))) \<le> 1"
      by (rule spaced_window)
  qed
qed

lemma mono_ticking: "0 \<le> dt \<Longrightarrow> mono (ticking t0 dt)"
  by (simp add: mono_def ticking_def mult_left_mono)

lemma slow_granted: "granted (attempts 6 slow_world chicken) = [80, 200]"
  by (simp add: eval_nat_numeral granted_def check_timestamp_def set_timestamp_def
      datetime_now_def chicken_def slow_world_def ticking_def)

text \<open>
  The theorem on six attempts, 40 seconds apart but for the readings that admissions
  take, with an interval of 60: the attempts at 80 and at 200 are granted, 120 seconds
  apart, and the window \<open>[30, 89)\<close> holds one of them.
\<close>

theorem admissions_spaced_witness:
  "mono (clock slow_world) \<and> tweet_interval chicken = PyNum 60
   \<and> granted (attempts 6 slow_world chicken) = [80, 200]
   \<and> sorted_wrt (\<lambda>a b. 60 \<le> b - a) (granted (attempts 6 slow_world chicken))
   \<and> length (filter (\<lambda>t. 30 \<le> t \<and> t < 30 + 59) (granted (attempts 6 slow_world chicken))) \<le> 1"
proof -
  have m: "mono (clock slow_world)"
    by (simp add: slow_world_def mono_ticking)
  have i: "tweet_interval chicken = PyNum 60"
    by (simp add: chicken_def)
  from admissions_spaced [OF m i, of 6] m i slow_granted show ?thesis
    by simp
qed

subsection \<open>Motion events\<close>

text \<open>
  Claim C6. A motion event handled while a livestream is running publishes the
  announcement and nothing else: the one call made is \<^verbatim>\<open>update_status\<close> with the
  announcement text and without media, no call goes to the camera, the clock is not read
  and the stored timestamp is not touched, whatever the time since the last publish. The
  event fails only if that one call does.
\<close>

theorem motion_during_livestream:
  assumes "running_livestream s"
  shows "motion_sensor env w s =
     (case on_update_status env of Inl e \<Rightarrow> Inl e | Inr update_id \<Rightarrow> Inr (),
      w\<lparr>calls := calls w @ [UpdateStatus (announcement s) None]\<rparr>,
      s)"
  using assms
  by (cases "on_update_status env")
    (simp_all add: motion_sensor_def send_tweet_def record_call_def)

text \<open>
  The theorem five seconds after a publish, with an interval of 60: the admission check
  would deny, and the announcement is published.
\<close>

theorem motion_during_livestream_witness:
  "running_livestream (chicken\<lparr>running_livestream := True\<rparr>)
   \<and> check_timestamp (world_at 5) (chicken\<lparr>running_livestream := True\<rparr>)
       = (Inr False, (world_at 5)\<lparr>reads := 1\<rparr>, chicken\<lparr>running_livestream := True\<rparr>)
   \<and> motion_sensor calm (world_at 5) (chicken\<lparr>running_livestream := True\<rparr>)
       = (Inr (),
          (world_at 5)\<lparr>calls := [UpdateStatus
             ''Hey! We're running a livestream right now! Come check us out at https://youtu.be/yard''
             None]\<rparr>,
          chicken\<lparr>running_livestream := True\<rparr>)"
  using motion_during_livestream [of "chicken\<lparr>running_livestream := True\<rparr>" calm "world_at 5"]
  by (simp add: chicken_def calm_def world_at_def announcement_def check_timestamp_def
      set_timestamp_def datetime_now_def ticking_def)

text \<open>The camera during a capture: what is called when all goes well, and when the capture raises.\<close>

lemma image_capture_returns:
  assumes "on_new_camera env = None" and "on_configure env = None"
    and "on_capture env = None" and "on_close env = None"
  shows "image_capture env w s =
    (Inr True,
     w\<lparr>calls := calls w @ [PiCamera, Configure (annotation s), Sleep 2,
                               Capture (twitter_image s), Close]\<rparr>,
     s\<lparr>camera := Some Closed\<rparr>)"
  using assms
  by (simp add: image_capture_def initialize_camera_def close_camera_def record_call_def)

lemma image_capture_capture_raises:
  assumes "on_new_camera env = None" and "on_configure env = None"
    and "on_capture env = Some e"
  shows "image_capture env w s =
    (Inl e,
     w\<lparr>calls := calls w @ [PiCamera, Configure (annotation s), Sleep 2,
                               Capture (twitter_image s)]\<rparr>,
     s\<lparr>camera := Some Opened\<rparr>)"
  using assms by (simp add: image_capture_def initialize_camera_def record_call_def)

text \<open>No motion event reads the clock or writes the stored timestamp.\<close>

lemma image_capture_reads: "reads (fst (snd (image_capture env w s))) = reads w"
  by (simp add: image_capture_def initialize_camera_def close_camera_def then_do_def
      perform_def record_call_def split: option.splits sum.splits)

lemma image_capture_timestamp:
  "timestamp (snd (snd (image_capture env w s))) = timestamp s"
  by (simp add: image_capture_def initialize_camera_def close_camera_def then_do_def
      perform_def record_call_def split: option.splits sum.splits)

lemma motion_sensor_never_reads_clock:
  "reads (fst (snd (motion_sensor env w s))) = reads w
   \<and> timestamp (snd (snd (motion_sensor env w s))) = timestamp s"
proof (cases "image_capture env w s" rule: prod_cases3)
  case (fields r w1 s1)
  with image_capture_reads [of env w s] image_capture_timestamp [of env w s]
  have "reads w1 = reads w" and "timestamp s1 = timestamp s"
    by simp_all
  with fields show ?thesis
    by (simp add: motion_sensor_def send_tweet_def then_do_def request_def record_call_def
        split: sum.splits)
qed

text \<open>
  Outside a livestream, when a message is composed and every collaborator answers
  normally, the motion event publishes it with the image; the stored timestamp and the
  interval do not enter.
\<close>

lemma motion_sensor_publishes:
  assumes "\<not> running_livestream s" and "get_tweet_fact env s = Inr message"
    and "on_new_camera env = None" and "on_configure env = None"
    and "on_capture env = None" and "on_close env = None"
    and "on_media_upload env = Inr media_id" and "on_update_status env = Inr update_id"
  shows "motion_sensor env w s =
    (Inr (),
     w\<lparr>calls := calls w @ [PiCamera, Configure (annotation s), Sleep 2,
        Capture (twitter_image s), Close, MediaUpload (twitter_image s),
        UpdateStatus message (Some [media_id])]\<rparr>,
     s\<lparr>camera := Some Closed\<rparr>)"
  using assms
  by (simp add: motion_sensor_def send_tweet_def image_capture_returns record_call_def)

lemma get_tweet_fact_first:
  "get_tweet_fact calm chicken = Inr ''Chicken fact 0: Hens lay eggs source: farm''"
  by (simp add: get_tweet_fact_def fact_message_def randrange_def seq_index_def calm_def
      chicken_def two_facts_def str_int_def str_nat.simps)

text \<open>
  Claim C1 says that a motion event outside a livestream asks the rate limiter after the
  capture and publishes nothing when admission is denied. The code does not: with an
  interval of 60 seconds and a publish at time 0, the admission check at time 30 returns
  \<^verbatim>\<open>False\<close>, and the motion event at time 30 uploads the image and publishes the tweet
  with it.
\<close>

theorem motion_publishes_when_limited:
  "check_timestamp (world_at 30) chicken = (Inr False, (world_at 30)\<lparr>reads := 1\<rparr>, chicken)
   \<and> motion_sensor calm (world_at 30) chicken =
       (Inr (),
        (world_at 30)\<lparr>calls :=
          [PiCamera, Configure None, Sleep 2, Capture ''/home/pi/tweetpic.jpg'', Close,
           MediaUpload ''/home/pi/tweetpic.jpg'',
           UpdateStatus ''Chicken fact 0: Hens lay eggs source: farm'' (Some [7])]\<rparr>,
        chicken\<lparr>camera := Some Closed\<rparr>)"
proof
  show "check_timestamp (world_at 30) chicken = (Inr False, (world_at 30)\<lparr>reads := 1\<rparr>, chicken)"
    by (simp add: check_timestamp_def set_timestamp_def datetime_now_def chicken_def
        world_at_def ticking_def)
  show "motion_sensor calm (world_at 30) chicken =
       (Inr (),
        (world_at 30)\<lparr>calls :=
          [PiCamera, Configure None, Sleep 2, Capture ''/home/pi/tweetpic.jpg'', Close,
           MediaUpload ''/home/pi/tweetpic.jpg'',
           UpdateStatus ''Chicken fact 0: Hens lay eggs source: farm'' (Some [7])]\<rparr>,
        chicken\<lparr>camera := Some Closed\<rparr>)"
    by (simp add: motion_sensor_def send_tweet_def get_tweet_fact_first image_capture_def
        initialize_camera_def close_camera_def record_call_def)
      (simp add: chicken_def calm_def world_at_def record_call_def annotation_def)
qed

text \<open>
  Claim C4 says that the camera is released on every exit of the capture, also when the
  capture fails. The code does not: when \<^verbatim>\<open>capture\<close> raises, the motion event ends with
  that exception after the calls \<open>PiCamera\<close>, \<open>Configure\<close>, \<open>Sleep\<close> and \<open>Capture\<close>;
  \<open>Close\<close> is never called and the camera stays open.
\<close>

theorem capture_failure_leaves_camera_open:
  "motion_sensor (calm\<lparr>on_capture := Some PiCameraError\<rparr>) (world_at 30) chicken =
     (Inl PiCameraError,
      (world_at 30)\<lparr>calls :=
        [PiCamera, Configure None, Sleep 2, Capture ''/home/pi/tweetpic.jpg'']\<rparr>,
      chicken\<lparr>camera := Some Opened\<rparr>)"
proof -
  have "get_tweet_fact (calm\<lparr>on_capture := Some PiCameraError\<rparr>) chicken
      = Inr ''Chicken fact 0: Hens lay eggs source: farm''"
    by (simp add: get_tweet_fact_def fact_message_def randrange_def seq_index_def calm_def
      chicken_def two_facts_def str_int_def str_nat.simps)
  then show ?thesis
    by (simp add: motion_sensor_def send_tweet_def image_capture_def
        initialize_camera_def close_camera_def record_call_def)
      (simp add: chicken_def calm_def world_at_def record_call_def annotation_def)
qed

subsection \<open>Loading and refreshing the facts\<close>

lemma load_facts_file_state: "snd (snd (load_facts_file env w s)) = s"
  by (simp add: load_facts_file_def then_do_def request_def split: sum.splits)

lemma load_facts_file_fetch_fails:
  assumes "on_get env = Inl e"
  shows "load_facts_file env w s = (Inl e, record_call (Get (facts_url s)) w, s)"
  using assms by (simp add: load_facts_file_def)

lemma load_facts_file_parse_fails:
  assumes "on_get env = Inr r" and "on_yaml_load env (content r) = Inl e"
  shows "load_facts_file env w s =
    (Inl e, record_call (YamlLoad (content r)) (record_call (Get (facts_url s)) w), s)"
  using assms by (simp add: load_facts_file_def)

lemma run_retrieve_facts_store:
  "run_retrieve_facts env w s = store_facts env (record_call (Sleep 3600) w) s"
  by (simp add: run_retrieve_facts_def)

text \<open>
  Whatever makes the load raise (the fetch, the parse, or \<^verbatim>\<open>len\<close> of an empty document),
  nothing has been assigned.
\<close>

lemma store_facts_raises:
  assumes "fst (store_facts env w s) = Inl e"
  shows "snd (snd (store_facts env w s)) = s"
proof (cases "load_facts_file env w s" rule: prod_cases3)
  case (fields r w1 s1)
  with load_facts_file_state [of env w s] have "s1 = s" by simp
  with fields assms show ?thesis
    by (cases r) (simp_all add: store_facts_def)
qed

text \<open>
  Claim C7, as the code has it. If the fetch raises (\<^verbatim>\<open>requests.get\<close> or the read of
  the body) or the parse raises (\<^verbatim>\<open>yaml.load\<close>), the refresh ends with that exception
  and the object is as it was: the facts loaded before and their count are unchanged.
  (The claim has this for every failed fetch or parse, also for one that does not raise.)
\<close>

theorem refresh_failure_keeps_facts:
  assumes "on_get env = Inl e
    \<or> (\<exists>r. on_get env = Inr r \<and> on_yaml_load env (content r) = Inl e)"
  shows "fst (run_retrieve_facts env w s) = Inl e
    \<and> snd (snd (run_retrieve_facts env w s)) = s
    \<and> facts (snd (snd (run_retrieve_facts env w s))) = facts s
    \<and> facts_count (snd (snd (run_retrieve_facts env w s))) = facts_count s"
  using assms
  by (auto simp add: run_retrieve_facts_def store_facts_def load_facts_file_fetch_fails
      load_facts_file_parse_fails)

text \<open>
  The theorem on an object with two facts: once with a fetch that raises, once with a
  document that does not parse.
\<close>

theorem refresh_failure_keeps_facts_witness:
  "on_get (calm\<lparr>on_get := Inl RequestException\<rparr>) = Inl RequestException
   \<and> run_retrieve_facts (calm\<lparr>on_get := Inl RequestException\<rparr>) (world_at 0) chicken
     = (Inl RequestException,
        (world_at 0)\<lparr>calls := [Sleep 3600, Get ''https://example.org/facts.yml'']\<rparr>,
        chicken)
   \<and> on_get (calm\<lparr>on_yaml_load := parse_fails\<rparr>) = Inr \<lparr>status_code = 200, content = ''facts''\<rparr>
   \<and> on_yaml_load (calm\<lparr>on_yaml_load := parse_fails\<rparr>) ''facts'' = Inl YAMLError
   \<and> fst (run_retrieve_facts (calm\<lparr>on_yaml_load := parse_fails\<rparr>) (world_at 0) chicken)
     = Inl YAMLError
   \<and> facts (snd (snd (run_retrieve_facts (calm\<lparr>on_yaml_load := parse_fails\<rparr>) (world_at 0) chicken)))
     = two_facts
   \<and> facts_count (snd (snd (run_retrieve_facts (calm\<lparr>on_yaml_load := parse_fails\<rparr>) (world_at 0) chicken)))
     = 2"
proof -
  have fetch: "on_get (calm\<lparr>on_get := Inl RequestException\<rparr>) = Inl RequestException"
    by simp
  have parse: "on_get (calm\<lparr>on_yaml_load := parse_fails\<rparr>)
        = Inr \<lparr>status_code = 200, content = ''facts''\<rparr>
      \<and> on_yaml_load (calm\<lparr>on_yaml_load := parse_fails\<rparr>) ''facts'' = Inl YAMLError"
    by (simp add: calm_def parse_fails_def)
  then have "on_get (calm\<lparr>on_yaml_load := parse_fails\<rparr>) = Inl YAMLError
      \<or> (\<exists>r. on_get (calm\<lparr>on_yaml_load := parse_fails\<rparr>) = Inr r
            \<and> on_yaml_load (calm\<lparr>on_yaml_load := parse_fails\<rparr>) (content r) = Inl YAMLError)"
    by simp
  from refresh_failure_keeps_facts [OF this, of "world_at 0" chicken]
    refresh_failure_keeps_facts [OF disjI1, OF fetch, of "world_at 0" chicken]
    fetch parse
  show ?thesis
    by (simp add: chicken_def run_retrieve_facts_def store_facts_def load_facts_file_def
        record_call_def world_at_def)
qed

text \<open>
  Claim C7 as stated fails for a fetch that fails without raising: the server answers 404,
  \<^verbatim>\<open>requests.get\<close> returns that response, its body parses to a mapping with one key, and
  the refresh stores the mapping and the count 1 over the two facts loaded before.
\<close>

theorem error_response_replaces_facts:
  "status_code not_found = 404
   \<and> facts chicken = two_facts \<and> facts_count chicken = 2
   \<and> run_retrieve_facts (calm\<lparr>on_get := Inr not_found, on_yaml_load := parse_not_found\<rparr>)
       (world_at 0) chicken =
     (Inr (),
      (world_at 0)\<lparr>calls := [Sleep 3600, Get ''https://example.org/facts.yml'',
                                 YamlLoad ''404: Not Found'']\<rparr>,
      chicken\<lparr>facts := YMap [(''404'', YStr ''Not Found'')], facts_count := 1\<rparr>)"
  by (simp add: run_retrieve_facts_def store_facts_def load_facts_file_def record_call_def
      world_at_def chicken_def not_found_def parse_not_found_def)

subsection \<open>The count and the index\<close>

lemma store_facts_returns:
  assumes "store_facts env w s = (Inr (), w', s')"
  shows "py_len (facts s') = Inr (facts_count s')"
  using assms
  by (auto simp add: store_facts_def load_facts_file_def then_do_def request_def
      split: sum.splits)

text \<open>What the constructor does after the initial load leaves the facts and their count alone.\<close>

lemma init_returns:
  assumes "init cfg env w = (Inr (), w', s')"
  shows "py_len (facts s') = Inr (facts_count s')"
proof -
  let ?s0 = "blank\<lparr>running_livestream := False,
                   youtube_key := cfg_youtube_key cfg,
                   youtube_feed_url := cfg_youtube_feed_url cfg,
                   livestream_duration := PyStr (cfg_duration cfg),
                   facts_url := cfg_facts_url cfg\<rparr>"
  obtain r w1 s1 where stored: "store_facts env w ?s0 = (r, w1, s1)"
    by (cases "store_facts env w ?s0" rule: prod_cases3)
  with assms have r: "r = Inr ()"
    by (cases r) (simp_all add: init_def)
  with stored have len: "py_len (facts s1) = Inr (facts_count s1)"
    by (simp add: store_facts_returns)
  from assms stored r have "facts s' = facts s1 \<and> facts_count s' = facts_count s1"
    by (auto simp add: init_def create_twitter_api_def set_timestamp_def datetime_now_def
        then_do_def perform_def split: option.splits)
  with len show ?thesis by simp
qed

lemma randrange_in_range:
  assumes "0 < n"
  shows "randrange pick n = Inr (int pick mod n)" and "0 \<le> int pick mod n"
    and "int pick mod n < n"
  using assms by (simp_all add: randrange_def)

lemma seq_index_in_range:
  assumes "0 \<le> i" and "i < int (length xs)"
  shows "seq_index xs i = Inr (xs ! nat i)"
  using assms by (simp add: seq_index_def)

text \<open>
  When the stored count is the length of a non-empty sequence, \<^verbatim>\<open>_get_tweet_fact\<close> draws
  an index of the sequence and goes on with the element there.
\<close>

lemma get_tweet_fact_list:
  assumes "facts s = YSeq xs" and "xs \<noteq> []" and "facts_count s = int (length xs)"
  shows "\<exists>i. randrange (randrange_pick env) (facts_count s) = Inr i
    \<and> 0 \<le> i \<and> i < int (length xs)
    \<and> getitem_int (facts s) i = Inr (xs ! nat i)
    \<and> get_tweet_fact env s = fact_message env i (xs ! nat i)"
proof -
  from assms(2,3) have pos: "0 < facts_count s"
    by simp
  from randrange_in_range [OF pos, of "randrange_pick env"] assms(1,3) show ?thesis
    by (simp add: get_tweet_fact_def seq_index_in_range)
qed

lemma get_tweet_fact_str:
  assumes "facts s = YStr str" and "str \<noteq> []" and "facts_count s = int (length str)"
  shows "\<exists>i. randrange (randrange_pick env) (facts_count s) = Inr i
    \<and> 0 \<le> i \<and> i < int (length str)
    \<and> getitem_int (facts s) i = Inr (YStr [str ! nat i])
    \<and> get_tweet_fact env s = fact_message env i (YStr [str ! nat i])"
proof -
  from assms(2,3) have pos: "0 < facts_count s"
    by simp
  from randrange_in_range [OF pos, of "randrange_pick env"] assms(1,3) show ?thesis
    by (simp add: get_tweet_fact_def seq_index_in_range)
qed

text \<open>
  Claim C9, as the code has it. After the initial load in \<^verbatim>\<open>__init__\<close> and after every
  refresh that returns, the stored count is \<^verbatim>\<open>len\<close> of the stored facts. So when what is
  stored is a non-empty sequence, a list (a YAML sequence of facts) or a string (what a
  line of comma-separated text parses to), the number that \<^verbatim>\<open>_get_tweet_fact\<close> draws with
  \<^verbatim>\<open>randrange(self.facts_count)\<close> is an index of the sequence, the lookup
  \<^verbatim>\<open>self.facts[fact_number]\<close> returns the element there, and the method goes on with that
  element. (The claim has this for every non-empty collection, mappings too.)
\<close>

theorem count_matches_facts:
  assumes "store_facts env w s = (Inr (), w', s')
    \<or> run_retrieve_facts env w s = (Inr (), w', s')
    \<or> init cfg env w = (Inr (), w', s')"
  shows "py_len (facts s') = Inr (facts_count s')
    \<and> (\<forall>xs env'. facts s' = YSeq xs \<and> xs \<noteq> [] \<longrightarrow>
          (\<exists>i. randrange (randrange_pick env') (facts_count s') = Inr i
             \<and> 0 \<le> i \<and> i < int (length xs)
             \<and> getitem_int (facts s') i = Inr (xs ! nat i)
             \<and> get_tweet_fact env' s' = fact_message env' i (xs ! nat i)))
    \<and> (\<forall>str env'. facts s' = YStr str \<and> str \<noteq> [] \<longrightarrow>
          (\<exists>i. randrange (randrange_pick env') (facts_count s') = Inr i
             \<and> 0 \<le> i \<and> i < int (length str)
             \<and> getitem_int (facts s') i = Inr (YStr [str ! nat i])
             \<and> get_tweet_fact env' s' = fact_message env' i (YStr [str ! nat i])))"
proof -
  from assms have len: "py_len (facts s') = Inr (facts_count s')"
    by (auto simp add: run_retrieve_facts_store dest: store_facts_returns init_returns)
  have "\<exists>i. randrange (randrange_pick env') (facts_count s') = Inr i
      \<and> 0 \<le> i \<and> i < int (length xs)
      \<and> getitem_int (facts s') i = Inr (xs ! nat i)
      \<and> get_tweet_fact env' s' = fact_message env' i (xs ! nat i)"
    if "facts s' = YSeq xs" and "xs \<noteq> []" for xs env'
  proof (rule get_tweet_fact_list [OF that])
    from len that(1) show "facts_count s' = int (length xs)"
      by simp
  qed
  moreover
  have "\<exists>i. randrange (randrange_pick env') (facts_count s') = Inr i
      \<and> 0 \<le> i \<and> i < int (length str)
      \<and> getitem_int (facts s') i = Inr (YStr [str ! nat i])
      \<and> get_tweet_fact env' s' = fact_message env' i (YStr [str ! nat i])"
    if "facts s' = YStr str" and "str \<noteq> []" for str env'
  proof (rule get_tweet_fact_str [OF that])
    from len that(1) show "facts_count s' = int (length str)"
      by simp
  qed
  ultimately show ?thesis
    using len by blast
qed

lemma init_hen_house:
  "init hen_house calm (world_at 0) =
     (Inr (),
      (world_at 0)\<lparr>reads := 1,
         calls := [Get ''https://example.org/facts.yml'', YamlLoad ''facts'',
                   VerifyCredentials]\<rparr>,
      configured)"
  by (simp add: init_def store_facts_def load_facts_file_def create_twitter_api_def
      set_timestamp_def datetime_now_def record_call_def blank_def hen_house_def calm_def
      parse_two_facts_def two_facts_def world_at_def ticking_def configured_def chicken_def)

text \<open>
  The theorem on the object that \<^verbatim>\<open>__init__\<close> builds from a configuration whose facts
  file holds two facts: the count is 2, the draw with randomness 5 is the index 1, and
  the message is composed from the second fact.
\<close>

theorem count_matches_facts_witness:
  "init hen_house calm (world_at 0) =
     (Inr (),
      (world_at 0)\<lparr>reads := 1,
         calls := [Get ''https://example.org/facts.yml'', YamlLoad ''facts'',
                   VerifyCredentials]\<rparr>,
      configured)
   \<and> facts configured = two_facts
   \<and> py_len (facts configured) = Inr (facts_count configured)
   \<and> randrange 5 (facts_count configured) = Inr 1
   \<and> getitem_int (facts configured) 1 =
       Inr (YMap [(''type'', YStr ''quote''), (''content'', YStr ''Cluck''),
                   (''source'', YStr ''a hen'')])
   \<and> get_tweet_fact (calm\<lparr>randrange_pick := 5\<rparr>) configured
       = Inr ''Chicken Quote 1: Cluck --a hen''"
proof -
  from count_matches_facts [OF disjI2, OF disjI2, OF init_hen_house] init_hen_house
  show ?thesis
    by (simp add: configured_def chicken_def two_facts_def randrange_def seq_index_def
        get_tweet_fact_def fact_message_def str_int_def str_nat.simps)
qed

text \<open>
  Claim C9 as stated fails for a collection that is not a sequence. A facts file that
  holds its list under a top-level key parses to a mapping with one key; the refresh
  stores it with the count 1, the draw is 0, a number of \<open>[0, 1)\<close>, and 0 is no key of the
  mapping: the lookup raises \<^verbatim>\<open>KeyError\<close>, and so does the method.
\<close>

theorem keyed_facts_index_invalid:
  "run_retrieve_facts (calm\<lparr>on_yaml_load := parse_keyed\<rparr>) (world_at 0) chicken =
     (Inr (),
      (world_at 0)\<lparr>calls := [Sleep 3600, Get ''https://example.org/facts.yml'',
                                 YamlLoad ''facts'']\<rparr>,
      chicken\<lparr>facts := YMap [(''facts'', two_facts)], facts_count := 1\<rparr>)
   \<and> py_len (YMap [(''facts'', two_facts)]) = Inr 1
   \<and> randrange (randrange_pick calm) 1 = Inr 0
   \<and> getitem_int (YMap [(''facts'', two_facts)]) 0 = Inl KeyError
   \<and> get_tweet_fact calm (chicken\<lparr>facts := YMap [(''facts'', two_facts)], facts_count := 1\<rparr>)
       = Inl KeyError"
  by (simp add: run_retrieve_facts_def store_facts_def load_facts_file_def record_call_def
      world_at_def chicken_def calm_def parse_keyed_def get_tweet_fact_def randrange_def)

text \<open>The other methods leave the facts and their count alone.\<close>

lemma check_timestamp_facts:
  "facts (snd (snd (check_timestamp w s))) = facts s
   \<and> facts_count (snd (snd (check_timestamp w s))) = facts_count s"
  by (simp add: check_timestamp_def set_timestamp_def datetime_now_def
      split: sum.splits bool.splits)

lemma image_capture_facts:
  "facts (snd (snd (image_capture env w s))) = facts s
   \<and> facts_count (snd (snd (image_capture env w s))) = facts_count s"
  by (simp add: image_capture_def initialize_camera_def close_camera_def then_do_def
      perform_def record_call_def split: option.splits sum.splits)

lemma motion_sensor_facts:
  "facts (snd (snd (motion_sensor env w s))) = facts s
   \<and> facts_count (snd (snd (motion_sensor env w s))) = facts_count s"
proof (cases "image_capture env w s" rule: prod_cases3)
  case (fields r w1 s1)
  with image_capture_facts [of env w s]
  have "facts s1 = facts s" and "facts_count s1 = facts_count s"
    by simp_all
  with fields show ?thesis
    by (simp add: motion_sensor_def send_tweet_def then_do_def request_def record_call_def
        split: sum.splits)
qed

subsection \<open>The object the constructor builds\<close>

text \<open>
  Every object that \<^verbatim>\<open>__init__\<close> returns holds the interval as a string, so every
  admission check on it raises.
\<close>

lemma init_interval:
  assumes "init cfg env w = (Inr (), w', s')"
  shows "tweet_interval s' = PyStr (cfg_tweet_interval cfg)"
  using assms
  by (auto simp add: init_def store_facts_def create_twitter_api_def set_timestamp_def
      datetime_now_def then_do_def perform_def split: option.splits sum.splits prod.splits)

lemma init_check_timestamp_raises:
  assumes "init cfg env w = (Inr (), w', s')"
  shows "check_timestamp w'' s' = (Inl TypeError, w''\<lparr>reads := Suc (reads w'')\<rparr>, s')"
  using init_interval [OF assms] by (rule check_timestamp_str)

text \<open>
  Claim C2 says that the admission check returns true, and records \<open>now\<close>, exactly when
  \<open>now - lastPublishTime \<ge> minimumIntervalSeconds\<close>, and otherwise returns false. The
  code does not. On the object that \<^verbatim>\<open>__init__\<close> builds, \<^verbatim>\<open>tweet_interval\<close> is the
  string read from the configuration, and the check at time 61, more than the 60 seconds
  of the configuration after the stored time 0, neither returns true nor false: the
  comparison raises \<^verbatim>\<open>TypeError\<close>. And with the number 60 for the interval, the check
  exactly 60 seconds after the stored time returns false: the comparison is \<open>>\<close>.
\<close>

theorem check_timestamp_on_built_object:
  "init hen_house calm (world_at 0) =
     (Inr (),
      (world_at 0)\<lparr>reads := 1,
         calls := [Get ''https://example.org/facts.yml'', YamlLoad ''facts'',
                   VerifyCredentials]\<rparr>,
      configured)
   \<and> tweet_interval configured = PyStr ''60'' \<and> timestamp configured = 0
   \<and> check_timestamp (world_at 61) configured =
       (Inl TypeError, (world_at 61)\<lparr>reads := 1\<rparr>, configured)
   \<and> tweet_interval chicken = PyNum 60
   \<and> clock (world_at 60) (reads (world_at 60)) - timestamp chicken = 60
   \<and> check_timestamp (world_at 60) chicken = (Inr False, (world_at 60)\<lparr>reads := 1\<rparr>, chicken)"
proof (intro conjI)
  show "init hen_house calm (world_at 0) =
     (Inr (),
      (world_at 0)\<lparr>reads := 1,
         calls := [Get ''https://example.org/facts.yml'', YamlLoad ''facts'',
                   VerifyCredentials]\<rparr>,
      configured)"
    by (rule init_hen_house)
  show "tweet_interval configured = PyStr ''60''" and "timestamp configured = 0"
    and "tweet_interval chicken = PyNum 60"
    by (simp_all add: configured_def chicken_def)
  show "check_timestamp (world_at 61) configured =
       (Inl TypeError, (world_at 61)\<lparr>reads := 1\<rparr>, configured)"
    by (simp add: check_timestamp_def datetime_now_def configured_def world_at_def)
  show "clock (world_at 60) (reads (world_at 60)) - timestamp chicken = 60"
    by (simp add: world_at_def ticking_def chicken_def)
  show "check_timestamp (world_at 60) chicken = (Inr False, (world_at 60)\<lparr>reads := 1\<rparr>, chicken)"
    by (simp add: check_timestamp_def set_timestamp_def datetime_now_def chicken_def
        world_at_def ticking_def)
qed

subsection \<open>Starting the refresh\<close>

lemma load_facts_file_calls:
  "calls (fst (snd (load_facts_file env w s))) =
     calls w @ Get (facts_url s) #
       (case on_get env of Inl e \<Rightarrow> [] | Inr r \<Rightarrow> [YamlLoad (content r)])"
  by (simp add: load_facts_file_def then_do_def request_def record_call_def split: sum.splits)

lemma store_facts_calls:
  "calls (fst (snd (store_facts env w s))) = calls (fst (snd (load_facts_file env w s)))"
  by (cases "load_facts_file env w s" rule: prod_cases3)
     (simp add: store_facts_def then_do_def split: sum.splits)

text \<open>
  Claim C8 says that the refresh recurs after every period for the lifetime of the
  coordinator. The code does not refresh at all once the object is built. \<^verbatim>\<open>run\<close>, the
  one place that makes \<^verbatim>\<open>_run_retrieve_facts\<close> the target of a thread, raises
  \<^verbatim>\<open>NameError\<close> after it has created two thread objects and before it starts any: no
  call goes to the content source. And one run of \<^verbatim>\<open>_run_retrieve_facts\<close> itself sleeps
  one period of 3600 seconds, asks the content source once and ends, whether the attempt
  succeeds or not: there is no loop that would make a second attempt.
\<close>

theorem refresh_never_recurs:
  "run env w s =
     (Inl NameError, w\<lparr>calls := calls w @ [NewThread ''facts'', NewThread ''motion_sensor'']\<rparr>, s)
   \<and> refresh_attempts (calls (fst (snd (run env w s)))) = refresh_attempts (calls w)
   \<and> calls (fst (snd (run_retrieve_facts env w s))) =
       calls w @ Sleep 3600 # Get (facts_url s) #
         (case on_get env of Inl e \<Rightarrow> [] | Inr r \<Rightarrow> [YamlLoad (content r)])
   \<and> refresh_attempts (calls (fst (snd (run_retrieve_facts env w s))))
       = Suc (refresh_attempts (calls w))"
proof (intro conjI)
  show run: "run env w s =
     (Inl NameError, w\<lparr>calls := calls w @ [NewThread ''facts'', NewThread ''motion_sensor'']\<rparr>, s)"
    by (simp add: run_def module_globals_def record_call_def)
  show "refresh_attempts (calls (fst (snd (run env w s)))) = refresh_attempts (calls w)"
    by (simp add: run refresh_attempts_def)
  show "calls (fst (snd (run_retrieve_facts env w s))) =
       calls w @ Sleep 3600 # Get (facts_url s) #
         (case on_get env of Inl e \<Rightarrow> [] | Inr r \<Rightarrow> [YamlLoad (content r)])"
    by (simp add: run_retrieve_facts_def store_facts_calls load_facts_file_calls record_call_def)
  then show "refresh_attempts (calls (fst (snd (run_retrieve_facts env w s))))
       = Suc (refresh_attempts (calls w))"
    by (simp add: refresh_attempts_def split: sum.splits)
qed

subsection \<open>The livestream\<close>

text \<open>The loop returns only if some round of waiting raises.\<close>

lemma wait_loop_returned_raised:
  assumes "wait_loop env d k w = Some r"
  shows "\<exists>j. on_wait_recording env j \<noteq> None"
proof (rule wait_loop.raw_induct
    [where P = "\<lambda>env d k w r. \<exists>j. on_wait_recording env j \<noteq> None", OF _ assms])
  fix f env d k w r
  assume IH: "\<And>env d k w r. f env d k w = Some r \<Longrightarrow> \<exists>j. on_wait_recording env j \<noteq> None"
    and eq: "(case on_wait_recording env k of
        None \<Rightarrow> f env d (Suc k) (record_call (WaitRecording d) w)
      | Some e \<Rightarrow> Some (e, record_call (WaitRecording d) w)) = Some r"
  show "\<exists>j. on_wait_recording env j \<noteq> None"
  proof (cases "on_wait_recording env k")
    case None
    with eq have "f env d (Suc k) (record_call (WaitRecording d) w) = Some r"
      by simp
    then show ?thesis by (rule IH)
  next
    case (Some e)
    then show ?thesis by auto
  qed
qed

lemma wait_loop_forever:
  assumes "\<And>j. on_wait_recording env j = None"
  shows "wait_loop env d k w = None"
proof (cases "wait_loop env d k w")
  case None
  then show ?thesis .
next
  case (Some r)
  then have "\<exists>j. on_wait_recording env j \<noteq> None"
    by (rule wait_loop_returned_raised)
  with assms show ?thesis by simp
qed

text \<open>
  If the first round to raise is the \<open>n\<close>-th after round \<open>k\<close>, the loop waits \<open>n + 1\<close>
  times and ends with that exception.
\<close>

lemma wait_loop_raises:
  assumes "on_wait_recording env (k + n) = Some e"
    and "\<And>j. j < n \<Longrightarrow> on_wait_recording env (k + j) = None"
  shows "wait_loop env d k w =
    Some (e, w\<lparr>calls := calls w @ replicate (Suc n) (WaitRecording d)\<rparr>)"
  using assms
proof (induction n arbitrary: k w)
  case 0
  then show ?case
    by (simp add: wait_loop.simps [of env d k w] record_call_def)
next
  case (Suc n)
  from Suc.prems(2) [of 0] have now: "on_wait_recording env k = None"
    by simp
  have "wait_loop env d (Suc k) (record_call (WaitRecording d) w) =
    Some (e, (record_call (WaitRecording d) w)
      \<lparr>calls := calls (record_call (WaitRecording d) w) @ replicate (Suc n) (WaitRecording d)\<rparr>)"
  proof (rule Suc.IH)
    from Suc.prems(1) show "on_wait_recording env (Suc k + n) = Some e"
      by simp
    fix j assume "j < n"
    with Suc.prems(2) [of "Suc j"] show "on_wait_recording env (Suc k + j) = None"
      by simp
  qed
  with now show ?case
    by (simp add: wait_loop.simps [of env d k w] record_call_def replicate_append_same)
qed

text \<open>A livestream that starts and whose rounds of waiting all return never ends.\<close>

lemma send_livestream_never_returns:
  assumes "on_popen env = None" and "camera s = Some c" and "on_start_recording env = None"
    and "\<And>j. on_wait_recording env j = None"
  shows "send_livestream env w s = None"
  using assms(1-3) wait_loop_forever [of env, OF assms(4)]
  by (simp add: send_livestream_def livestream_try_def)

lemma wait_loop_returns:
  assumes "on_wait_recording env j \<noteq> None"
  shows "\<exists>e n. wait_loop env d 0 w =
    Some (e, w\<lparr>calls := calls w @ replicate (Suc n) (WaitRecording d)\<rparr>)"
proof -
  let ?n = "LEAST j. on_wait_recording env j \<noteq> None"
  from assms have "on_wait_recording env ?n \<noteq> None"
    by (rule LeastI)
  then obtain e where e: "on_wait_recording env (0 + ?n) = Some e"
    by auto
  have "on_wait_recording env (0 + i) = None" if "i < ?n" for i
    using not_less_Least [OF that] by simp
  with e have "wait_loop env d 0 w =
      Some (e, w\<lparr>calls := calls w @ replicate (Suc ?n) (WaitRecording d)\<rparr>)"
    by (rule wait_loop_raises)
  then show ?thesis by blast
qed

text \<open>
  A session that has started (the pipe is open, the camera records) ends exactly when a
  call of \<^verbatim>\<open>wait_recording\<close> raises, be it a \<^verbatim>\<open>KeyboardInterrupt\<close> or an error of the
  camera; when no call raises, the routine never returns.
\<close>

lemma livestream_ends_by_exception:
  assumes "on_popen env = None" and "camera s = Some c" and "on_start_recording env = None"
  shows "(send_livestream env w s = None) = (\<forall>j. on_wait_recording env j = None)"
proof
  assume "send_livestream env w s = None"
  with assms have none: "wait_loop env (livestream_duration s) 0
      (record_call StartRecording (record_call (Popen (stream_cmd s)) w)) = None"
    by (simp add: send_livestream_def livestream_try_def stream_cmd_def
        split: option.splits prod.splits)
  show "\<forall>j. on_wait_recording env j = None"
  proof (rule ccontr)
    assume "\<not> (\<forall>j. on_wait_recording env j = None)"
    then obtain j where "on_wait_recording env j \<noteq> None"
      by blast
    from wait_loop_returns [OF this, of "livestream_duration s"
        "record_call StartRecording (record_call (Popen (stream_cmd s)) w)"] none
    show False
      by auto
  qed
next
  assume "\<forall>j. on_wait_recording env j = None"
  with assms show "send_livestream env w s = None"
    by (simp add: send_livestream_never_returns)
qed

text \<open>
  How long a session lasts is decided by the interrupt alone: interrupted in round \<open>n\<close>,
  it has waited \<open>n + 1\<close> rounds of \<^verbatim>\<open>livestream_duration\<close> each, whatever that duration
  is, and only then is the recording stopped and the camera closed.
\<close>

lemma livestream_lasts_until_interrupted:
  assumes "on_popen env = None" and "camera s = Some c" and "on_start_recording env = None"
    and "on_wait_recording env = raise_at n KeyboardInterrupt"
    and "on_stop_recording env = None" and "on_close env = None"
    and "on_stdin_close env = None"
  shows "send_livestream env w s =
    Some (Inr (),
          w\<lparr>calls := calls w @ [Popen (stream_cmd s), StartRecording]
             @ replicate (Suc n) (WaitRecording (livestream_duration s))
             @ [StopRecording, Close, StdinClose]\<rparr>,
          s\<lparr>running_livestream := False, camera := Some Closed\<rparr>)"
proof -
  have "wait_loop env d 0 w' =
      Some (KeyboardInterrupt, w'\<lparr>calls := calls w' @ replicate (Suc n) (WaitRecording d)\<rparr>)"
    for d w'
    by (rule wait_loop_raises) (simp_all add: assms(4) raise_at_def)
  with assms(1-3,5-7) show ?thesis
    by (simp add: send_livestream_def livestream_try_def livestream_except_def
        livestream_finally_def close_camera_def record_call_def stream_cmd_def)
qed

text \<open>
  Claim C5 says that the session is stopped once the configured duration has elapsed,
  without any stop request. The code does not stop it: \<^verbatim>\<open>livestream_duration\<close> is
  handed to \<^verbatim>\<open>wait_recording\<close> inside \<^verbatim>\<open>while True\<close>, so it is the time one round
  waits, and a round that returns is followed by the next. With a duration of 600
  seconds, a session that nobody interrupts and in which no call fails never returns,
  and the camera is never closed; a session interrupted in its third round has waited
  three rounds of 600 seconds, not one, before the recording is stopped and the camera
  closed.
\<close>

theorem livestream_outlives_duration:
  "livestream_duration streaming = PyNum 600
   \<and> send_livestream calm (world_at 0) streaming = None
   \<and> send_livestream (calm\<lparr>on_wait_recording := raise_at 2 KeyboardInterrupt\<rparr>)
       (world_at 0) streaming =
     Some (Inr (),
           (world_at 0)\<lparr>calls :=
             [Popen (stream_cmd streaming), StartRecording, WaitRecording (PyNum 600),
              WaitRecording (PyNum 600), WaitRecording (PyNum 600), StopRecording, Close,
              StdinClose]\<rparr>,
           streaming\<lparr>camera := Some Closed\<rparr>)"
proof (intro conjI)
  show "livestream_duration streaming = PyNum 600"
    by (simp add: streaming_def chicken_def)
  have "wait_loop calm d k w = None" for d k w
    by (rule wait_loop_forever) (simp add: calm_def no_raise_def)
  then show "send_livestream calm (world_at 0) streaming = None"
    by (simp add: send_livestream_def livestream_try_def calm_def streaming_def)
  let ?env = "calm\<lparr>on_wait_recording := raise_at 2 KeyboardInterrupt\<rparr>"
  have "wait_loop ?env d 0 w =
      Some (KeyboardInterrupt, w\<lparr>calls := calls w @ replicate 3 (WaitRecording d)\<rparr>)" for d w
    using wait_loop_raises [of ?env 0 2 KeyboardInterrupt d w]
    by (simp add: raise_at_def eval_nat_numeral)
  then show "send_livestream ?env (world_at 0) streaming =
     Some (Inr (),
           (world_at 0)\<lparr>calls :=
             [Popen (stream_cmd streaming), StartRecording, WaitRecording (PyNum 600),
              WaitRecording (PyNum 600), WaitRecording (PyNum 600), StopRecording, Close,
              StdinClose]\<rparr>,
           streaming\<lparr>camera := Some Closed\<rparr>)"
    by (simp add: send_livestream_def livestream_try_def livestream_except_def
        livestream_finally_def close_camera_def record_call_def calm_def streaming_def
        chicken_def world_at_def stream_cmd_def eval_nat_numeral)
qed

text \<open>When the camera closes and the pipe closes, the \<^verbatim>\<open>finally\<close> block resets the flag.\<close>

lemma livestream_finally_resets:
  assumes "camera s = Some c" and "on_close env = None" and "on_stdin_close env = None"
  shows "livestream_finally env True pending w s =
     (case pending of Some e \<Rightarrow> Inl e | None \<Rightarrow> Inr (),
      w\<lparr>calls := calls w @ [Close, StdinClose]\<rparr>,
      s\<lparr>camera := Some Closed, running_livestream := False\<rparr>)"
  using assms
  by (cases pending) (simp_all add: livestream_finally_def close_camera_def record_call_def)

text \<open>
  Claim C10 says that every exit of the livestream routine closes the camera, closes the
  pipe's input and resets the flag. The code does not on the exits where
  \<^verbatim>\<open>_close_camera\<close>, the first statement of the \<^verbatim>\<open>finally\<close> block, raises. A camera
  that fails in the second round of waiting and fails again when closed ends the routine
  with the pipe's input still open and \<^verbatim>\<open>running_livestream\<close> still true. So does an
  object whose camera was never bound, the state in which \<^verbatim>\<open>_run_livestream\<close> finds it
  unless a capture came first: \<^verbatim>\<open>start_recording\<close> and then \<^verbatim>\<open>_close_camera\<close> raise
  \<^verbatim>\<open>AttributeError\<close>.
\<close>

theorem cleanup_cut_short:
  "send_livestream (calm\<lparr>on_wait_recording := raise_at 1 PiCameraError,
       on_close := Some PiCameraError\<rparr>) (world_at 0) streaming =
     Some (Inl PiCameraError,
           (world_at 0)\<lparr>calls :=
             [Popen (stream_cmd streaming), StartRecording, WaitRecording (PyNum 600),
              WaitRecording (PyNum 600), Close]\<rparr>,
           streaming\<lparr>running_livestream := True\<rparr>)
   \<and> send_livestream calm (world_at 0) chicken =
     Some (Inl AttributeError,
           (world_at 0)\<lparr>calls := [Popen (stream_cmd chicken)]\<rparr>,
           chicken\<lparr>running_livestream := True\<rparr>)"
proof
  let ?env = "calm\<lparr>on_wait_recording := raise_at 1 PiCameraError,
       on_close := Some PiCameraError\<rparr>"
  have "wait_loop ?env d 0 w =
      Some (PiCameraError, w\<lparr>calls := calls w @ replicate 2 (WaitRecording d)\<rparr>)" for d w
    using wait_loop_raises [of ?env 0 1 PiCameraError d w]
    by (simp add: raise_at_def eval_nat_numeral)
  then show "send_livestream ?env (world_at 0) streaming =
     Some (Inl PiCameraError,
           (world_at 0)\<lparr>calls :=
             [Popen (stream_cmd streaming), StartRecording, WaitRecording (PyNum 600),
              WaitRecording (PyNum 600), Close]\<rparr>,
           streaming\<lparr>running_livestream := True\<rparr>)"
    by (simp add: send_livestream_def livestream_try_def livestream_except_def
        livestream_finally_def close_camera_def record_call_def calm_def streaming_def
        chicken_def world_at_def stream_cmd_def eval_nat_numeral)
  show "send_livestream calm (world_at 0) chicken =
     Some (Inl AttributeError,
           (world_at 0)\<lparr>calls := [Popen (stream_cmd chicken)]\<rparr>,
           chicken\<lparr>running_livestream := True\<rparr>)"
    by (simp add: send_livestream_def livestream_try_def livestream_except_def
        livestream_finally_def close_camera_def record_call_def calm_def
        chicken_def world_at_def stream_cmd_def)
qed

end
